theory Spec2Isabelle
  imports Main "HOL-Library.Word"
begin

unbundle bit_operations_syntax

section \<open>Byte buffers\<close>

text \<open>
  A Node \<open>Buffer\<close> (and a \<open>Uint8Array\<close>) is a list of unsigned 8-bit words.
  \<open>Buffer.isBuffer\<close> holds of every value of this type.
\<close>

type_synonym byte = "8 word"
type_synonym buffer = "byte list"

text \<open>
  \<open>a.compare(b)\<close> of Node's Buffer: the first differing byte decides (unsigned), then
  the shorter buffer is the smaller one; the result is -1, 0 or 1.
\<close>

fun Buffer_compare :: "buffer \<Rightarrow> buffer \<Rightarrow> int" where
  "Buffer_compare [] [] = 0"
| "Buffer_compare [] (y # ys) = -1"
| "Buffer_compare (x # xs) [] = 1"
| "Buffer_compare (x # xs) (y # ys) =
     (if x < y then -1 else if y < x then 1 else Buffer_compare xs ys)"

definition Buffer_equals :: "buffer \<Rightarrow> buffer \<Rightarrow> bool" where
  "Buffer_equals a b = (a = b)"

text \<open>\<open>buf.slice(start, end)\<close>: the bytes at the indices from start up to end, clipped.\<close>

definition slice :: "buffer \<Rightarrow> nat \<Rightarrow> nat \<Rightarrow> buffer" where
  "slice buf start end = take (end - start) (drop start buf)"

text \<open>\<open>buf.at(i)\<close> and \<open>buf[i]\<close> for an index from the front: undefined out of range.\<close>

definition at :: "buffer \<Rightarrow> nat \<Rightarrow> byte option" where
  "at buf i = (if i < length buf then Some (buf ! i) else None)"

text \<open>The number a buffer denotes, read big-endian (most significant byte first).\<close>

primrec be_nat :: "buffer \<Rightarrow> nat" where
  "be_nat [] = 0"
| "be_nat (b # bs) = unat b * 256 ^ length bs + be_nat bs"

text \<open>The big-endian encoding of a number on \<open>len\<close> bytes.\<close>

definition be_bytes :: "nat \<Rightarrow> nat \<Rightarrow> buffer" where
  "be_bytes len v = map (\<lambda>i. of_nat (v div 256 ^ (len - 1 - i))) [0..<len]"

text \<open>
  \<open>new BN(x.toString()).toArray('be', 32)\<close> for a 256-bit scalar, and the curve
  library's 32-byte encoding of a field element.
\<close>

definition toArray_be_32 :: "256 word \<Rightarrow> buffer" where
  "toArray_be_32 w = be_bytes 32 (unat w)"

section \<open>Errors\<close>

text \<open>
  The typed failures of the errors package. \<open>InvalidDataType\<close> carries the method name
  and the reason it was built with; \<open>LibraryError\<close> is an untyped \<open>Error\<close> thrown by a
  Javascript library.
\<close>

datatype error =
    InvalidSecp256k1MessageHash
  | InvalidSecp256k1PrivateKey
  | InvalidSecp256k1Signature
  | InvalidSecp256k1SignatureRecovery
  | InvalidDataType string string
  | InvalidHDNode
  | InvalidMnemonic
  | LibraryError

text \<open>
  Modelled from the spec: \<open>assert(methodName, condition, code, message, data)\<close> of the
  errors package, which is not under src/: it throws the typed error of the given code
  when the condition is false, and does nothing otherwise.
\<close>

definition assert :: "bool \<Rightarrow> error \<Rightarrow> error + unit" where
  "assert condition code = (if condition then Inr () else Inl code)"

section \<open>secp256k1\<close>

text \<open>\<open>PRIVATE_KEY_MAX_VALUE\<close>: the 32 bytes of the hexadecimal string of the source.\<close>

definition PRIVATE_KEY_MAX_VALUE :: buffer where
  "PRIVATE_KEY_MAX_VALUE =
     [0xff, 0xff, 0xff, 0xff, 0xff, 0xff, 0xff, 0xff,
      0xff, 0xff, 0xff, 0xff, 0xff, 0xff, 0xff, 0xfe,
      0xba, 0xae, 0xdc, 0xe6, 0xaf, 0x48, 0xa0, 0x3b,
      0xbf, 0xd2, 0x5e, 0x8c, 0xd0, 0x36, 0x41, 0x41]"

text \<open>The order of the secp256k1 group, as a number.\<close>

definition curveOrder :: nat where
  "curveOrder = 0xfffffffffffffffffffffffffffffffebaaedce6af48a03bbfd25e8cd0364141"

text \<open>
  Modelled from the spec: \<open>ZERO_BUFFER\<close> of the utils module, which is not under src/:
  the all-zero buffer of the given length (the spec's all-zero key for length 32).
\<close>

definition ZERO_BUFFER :: "nat \<Rightarrow> buffer" where
  "ZERO_BUFFER n = replicate n 0"

definition isValidMessageHash :: "buffer \<Rightarrow> bool" where
  "isValidMessageHash hash = (length hash = 32)"

definition isValidPrivateKey :: "buffer \<Rightarrow> bool" where
  "isValidPrivateKey privateKey =
     (length privateKey = 32 \<and>
      \<not> Buffer_equals privateKey (ZERO_BUFFER 32) \<and>
      Buffer_compare privateKey PRIVATE_KEY_MAX_VALUE < 0)"

text \<open>
  Modelled from the spec: the two assertion helpers of the assertions module, which is
  not under src/. Each applies the predicate it is given and fails with the typed error
  the spec and the documentation comments of \<open>sign\<close> and \<open>derivePublicKey\<close> name.
\<close>

definition assertIsValidSecp256k1MessageHash ::
  "buffer \<Rightarrow> (buffer \<Rightarrow> bool) \<Rightarrow> error + unit" where
  "assertIsValidSecp256k1MessageHash msgHash isValidMessageHashFunction =
     assert (isValidMessageHashFunction msgHash) InvalidSecp256k1MessageHash"

definition assertIsValidPrivateKey ::
  "buffer \<Rightarrow> (buffer \<Rightarrow> bool) \<Rightarrow> error + unit" where
  "assertIsValidPrivateKey privateKey isValidPrivateKeyFunction =
     assert (isValidPrivateKeyFunction privateKey) InvalidSecp256k1PrivateKey"

subsection \<open>The curve library\<close>

text \<open>
  The elliptic-curve arithmetic is done by an external library. It is a parameter of
  the model: a curve point is a pair of 256-bit field elements, a signature holds two
  256-bit scalars and the recovery id.
\<close>

record point =
  point_x :: "256 word"
  point_y :: "256 word"

record signature =
  sig_r :: "256 word"
  sig_s :: "256 word"
  sig_recovery :: nat

record curve_lib =
  \<comment> \<open>the multiple of the base point by a scalar (\<open>getPublicKey\<close>)\<close>
  multiplyBase :: "nat \<Rightarrow> point"
  \<comment> \<open>\<open>sign(messageHash, privateKey)\<close>\<close>
  ecdsaSign :: "buffer \<Rightarrow> buffer \<Rightarrow> signature"
  \<comment> \<open>\<open>Signature.fromCompact(compact).addRecoveryBit(recovery).recoverPublicKey(messageHash)\<close>,
      which throws on a signature the library rejects\<close>
  recoverPublicKey :: "buffer \<Rightarrow> nat \<Rightarrow> buffer \<Rightarrow> error + point"

text \<open>
  Modelled from the spec: the point encoding of the curve library (\<open>toRawBytes\<close>), which
  is not under src/: compressed is 33 bytes, the prefix 0x02 (y even) or 0x03 (y odd)
  and x; uncompressed is 65 bytes, the prefix 0x04, x and y.
\<close>

definition toRawBytes :: "point \<Rightarrow> bool \<Rightarrow> buffer" where
  "toRawBytes p isCompressed =
     (if isCompressed
      then (if even (unat (point_y p)) then 2 else 3) # toArray_be_32 (point_x p)
      else 4 # toArray_be_32 (point_x p) @ toArray_be_32 (point_y p))"

definition derivePublicKey :: "curve_lib \<Rightarrow> buffer \<Rightarrow> bool \<Rightarrow> error + buffer" where
  "derivePublicKey lib privateKey isCompressed =
     (case assertIsValidPrivateKey privateKey isValidPrivateKey of
        Inl e \<Rightarrow> Inl e
      | Inr _ \<Rightarrow> Inr (toRawBytes (multiplyBase lib (be_nat privateKey)) isCompressed))"

definition sign :: "curve_lib \<Rightarrow> buffer \<Rightarrow> buffer \<Rightarrow> error + buffer" where
  "sign lib messageHash privateKey =
     (case assertIsValidSecp256k1MessageHash messageHash isValidMessageHash of
        Inl e \<Rightarrow> Inl e
      | Inr _ \<Rightarrow>
     (case assertIsValidPrivateKey privateKey isValidPrivateKey of
        Inl e \<Rightarrow> Inl e
      | Inr _ \<Rightarrow>
          (let sig = ecdsaSign lib messageHash privateKey;
               r = toArray_be_32 (sig_r sig);
               s = toArray_be_32 (sig_s sig)
           in Inr (r @ s @ [of_nat (sig_recovery sig)]))))"

text \<open>
  Modelled from the spec: the constant \<open>SIGNATURE_LENGTH\<close> of the utils module, which is
  not under src/: a signature is 65 bytes, as the message of the assertion says too.
\<close>

definition SIGNATURE_LENGTH :: nat where
  "SIGNATURE_LENGTH = 65"

definition recover :: "curve_lib \<Rightarrow> buffer \<Rightarrow> buffer \<Rightarrow> error + buffer" where
  "recover lib messageHash sig =
     (case assertIsValidSecp256k1MessageHash messageHash isValidMessageHash of
        Inl e \<Rightarrow> Inl e
      | Inr _ \<Rightarrow>
     (case assert (length sig = SIGNATURE_LENGTH) InvalidSecp256k1Signature of
        Inl e \<Rightarrow> Inl e
      | Inr _ \<Rightarrow>
          (let recovery = at sig 64 in
     (case assert (recovery = Some 0 \<or> recovery = Some 1)
             InvalidSecp256k1SignatureRecovery of
        Inl e \<Rightarrow> Inl e
      | Inr _ \<Rightarrow>
     (case recoverPublicKey lib (slice sig 0 64) (unat (the recovery)) messageHash of
        Inl e \<Rightarrow> Inl e
      | Inr p \<Rightarrow> Inr (toRawBytes p False))))))"

text \<open>
  \<open>compressPublicKey\<close> has no throw statement: both of its branches return. The last
  byte of an empty \<open>y\<close> is undefined, and \<open>undefined & 1\<close> is 0.
\<close>

definition compressPublicKey :: "buffer \<Rightarrow> error + buffer" where
  "compressPublicKey publicKey =
     (let prefix = at publicKey 0 in
      if prefix = Some 4 then
        (let x = slice publicKey 1 33;
             y = slice publicKey 33 65;
             isYOdd = (case at y (length y - 1) of None \<Rightarrow> 0 | Some b \<Rightarrow> b AND 1)
         in Inr ((2 + isYOdd) # x))
      else Inr publicKey)"

subsection \<open>A stand-in for the curve library\<close>

text \<open>
  To run the model on concrete inputs the library parameter is instantiated with a
  stand-in that always answers with the base point of secp256k1 (the public key of the
  private key 1) and with one fixed signature.
\<close>

definition fixture_point :: point where
  "fixture_point =
     \<lparr>point_x = 0x79be667ef9dcbbac55a06295ce870b07029bfcdb2dce28d959f2815b16f81798,
      point_y = 0x483ada7726a3c4655da4fbfc0e1108a8fd17b448a68554199c47d08ffb10d4b8\<rparr>"

definition fixture_lib :: curve_lib where
  "fixture_lib =
     \<lparr>multiplyBase = (\<lambda>k. fixture_point),
      ecdsaSign = (\<lambda>messageHash privateKey. \<lparr>sig_r = 1, sig_s = 2, sig_recovery = 0\<rparr>),
      recoverPublicKey = (\<lambda>compact recovery messageHash. Inr fixture_point)\<rparr>"

text \<open>
  A second stand-in, for the failure of the library: it rejects with an untyped error, as
  the curve library does, a compact signature whose r or s is zero, and answers with
  the base point on every other signature.
\<close>

definition rejecting_lib :: curve_lib where
  "rejecting_lib =
     \<lparr>multiplyBase = multiplyBase fixture_lib,
      ecdsaSign = ecdsaSign fixture_lib,
      recoverPublicKey = (\<lambda>compact recovery messageHash.
        if slice compact 0 32 = ZERO_BUFFER 32 \<or> slice compact 32 64 = ZERO_BUFFER 32
        then Inl LibraryError
        else Inr fixture_point)\<rparr>"

section \<open>Hexadecimal values and addresses\<close>

text \<open>
  A hexadecimal value is a sign and the string of its digits. The classes \<open>Hex\<close> and
  \<open>HexInt\<close> are not under src/: what \<open>HexUInt\<close> and \<open>Address\<close> call of them (the
  constant \<open>Hex.POSITIVE\<close>, the parser \<open>HexInt.of\<close> and the constructor of \<open>HexInt\<close>)
  is a parameter, over any type of expressions.
\<close>

record Hex =
  hex_sign :: int
  hex_digits :: string

record 'e hex_classes =
  POSITIVE :: int
  HexInt_of :: "'e \<Rightarrow> error + Hex"
  HexInt_constructor :: "Hex \<Rightarrow> error + Hex"

text \<open>
  \<open>errorHandler\<close> of the decorators: an InvalidDataType is thrown again as it is, any
  other error is replaced by a new InvalidDataType.
\<close>

definition errorHandler :: "error \<Rightarrow> string \<Rightarrow> string \<Rightarrow> error" where
  "errorHandler subclassError method message =
     (case subclassError of
        InvalidDataType m r \<Rightarrow> subclassError
      | _ \<Rightarrow> InvalidDataType method message)"

text \<open>
  \<open>ErrorInterceptor(errorMessage)\<close> wraps a method: its result is returned, its error
  goes through \<open>errorHandler\<close>. The method name of the new error is the name of the
  target's constructor, a dot and the name of the method.
\<close>

definition ErrorInterceptor ::
  "string \<Rightarrow> string \<Rightarrow> string \<Rightarrow> ('a \<Rightarrow> error + 'b) \<Rightarrow> 'a \<Rightarrow> error + 'b" where
  "ErrorInterceptor errorMessage targetConstructorName methodName originalMethod args =
     (case originalMethod args of
        Inr v \<Rightarrow> Inr v
      | Inl e \<Rightarrow> Inl (errorHandler e (targetConstructorName @ ''.'' @ methodName) errorMessage))"

definition HexUInt_constructor :: "'e hex_classes \<Rightarrow> Hex \<Rightarrow> error + Hex" where
  "HexUInt_constructor hx hi =
     (if hex_sign hi \<ge> POSITIVE hx then HexInt_constructor hx hi
      else Inl (InvalidDataType ''HexUInt.constructor'' ''not positive''))"

text \<open>The target of a decorated static method is the class, whose constructor is \<open>Function\<close>.\<close>

definition HexUInt_of :: "'e hex_classes \<Rightarrow> 'e \<Rightarrow> error + Hex" where
  "HexUInt_of hx =
     ErrorInterceptor ''not a valid hexadecimal unsigned integer expression'' ''Function'' ''of''
       (\<lambda>exp. case HexInt_of hx exp of
                Inl e \<Rightarrow> Inl e
              | Inr hi \<Rightarrow> HexUInt_constructor hx hi)"

text \<open>The constructor of \<open>Address\<close> is \<open>super(hi)\<close> and nothing else.\<close>

definition Address_constructor :: "'e hex_classes \<Rightarrow> Hex \<Rightarrow> error + Hex" where
  "Address_constructor hx hi = HexUInt_constructor hx hi"

definition Address_of :: "'e hex_classes \<Rightarrow> 'e \<Rightarrow> error + Hex" where
  "Address_of hx =
     ErrorInterceptor ''not a valid address expression'' ''Function'' ''of''
       (\<lambda>exp. case HexUInt_of hx exp of
                Inl e \<Rightarrow> Inl e
              | Inr hi \<Rightarrow> Address_constructor hx hi)"

text \<open>
  A stand-in for the missing classes, on the two expressions of the unit tests of
  \<open>HexUInt\<close>: \<open>0xcaffee\<close> is read as a positive value (the test gets a \<open>HexUInt\<close> of
  it), \<open>-0xcaffee\<close> as a negative one (the test gets the error 'not positive').
\<close>

definition fixture_hex :: "string hex_classes" where
  "fixture_hex =
     \<lparr>POSITIVE = 1,
      HexInt_of = (\<lambda>exp.
        if exp = ''0xcaffee'' then Inr \<lparr>hex_sign = 1, hex_digits = ''caffee''\<rparr>
        else if exp = ''-0xcaffee'' then Inr \<lparr>hex_sign = -1, hex_digits = ''caffee''\<rparr>
        else Inl (InvalidDataType ''HexInt.of'' ''not a hexadecimal integer expression'')),
      HexInt_constructor = Inr\<rparr>"

section \<open>Hierarchical key tree\<close>

text \<open>
  Modelled from the spec: the HDNode module, which is not under src/ (only its unit
  tests are). A node holds an optional private key, the 33-byte compressed public key
  and the chain code; depth, parent fingerprint and child index, which no derivation
  reads, are left out. The keyed hash (HMAC-SHA512), the addition of curve points and the
  decoding of a point are the collaborators: they are parameters, next to the curve
  library.
\<close>

record hd_lib =
  curve :: curve_lib
  hmacSha512 :: "buffer \<Rightarrow> buffer \<Rightarrow> buffer"
  pointAdd :: "point \<Rightarrow> point \<Rightarrow> point"
  pointFromBytes :: "buffer \<Rightarrow> point option"

record HDNode =
  node_privateKey :: "buffer option"
  node_publicKey :: buffer
  node_chainCode :: buffer

text \<open>
  Modelled from the spec: child indices (HDNode module, not under src/): an index is an
  unsigned 32-bit value, hardened when its high bit is set, and serialised on 4 bytes.
\<close>

definition isHardened :: "32 word \<Rightarrow> bool" where
  "isHardened index = bit index 31"

definition ser32 :: "32 word \<Rightarrow> buffer" where
  "ser32 index = be_bytes 4 (unat index)"

text \<open>
  Modelled from the spec: the two constructors (HDNode module, not under src/).
  \<open>fromPrivateKey\<close> fails with InvalidSecp256k1PrivateKey on a key that is not a valid
  scalar and with InvalidHDNode on a chain code that is not of 32 bytes; the unit test
  with both wrong expects the error of the key. \<open>fromPublicKey\<close> fails with InvalidHDNode
  on a chain code that is not of 32 bytes and on a key that is not the encoding of a point.
\<close>

definition fromPrivateKey :: "hd_lib \<Rightarrow> buffer \<Rightarrow> buffer \<Rightarrow> error + HDNode" where
  "fromPrivateKey lib key code =
     (if \<not> isValidPrivateKey key then Inl InvalidSecp256k1PrivateKey
      else if length code \<noteq> 32 then Inl InvalidHDNode
      else Inr \<lparr>node_privateKey = Some key,
                node_publicKey = toRawBytes (multiplyBase (curve lib) (be_nat key)) True,
                node_chainCode = code\<rparr>)"

definition fromPublicKey :: "hd_lib \<Rightarrow> buffer \<Rightarrow> buffer \<Rightarrow> error + HDNode" where
  "fromPublicKey lib key code =
     (if length code \<noteq> 32 then Inl InvalidHDNode
      else case pointFromBytes lib key of
        None \<Rightarrow> Inl InvalidHDNode
      | Some p \<Rightarrow>
          Inr \<lparr>node_privateKey = None,
               node_publicKey = toRawBytes p True,
               node_chainCode = code\<rparr>)"

text \<open>
  Modelled from the spec: the data the keyed hash is applied to (HDNode module, not
  under src/): the parent's public key and the index for a
  normal derivation; a zero byte, the parent's private key and the index for a hardened
  one, which a public-only parent cannot do.
\<close>

definition derivationData :: "HDNode \<Rightarrow> 32 word \<Rightarrow> error + buffer" where
  "derivationData node index =
     (if isHardened index then
        (case node_privateKey node of
           None \<Rightarrow> Inl InvalidHDNode
         | Some k \<Rightarrow> Inr (0 # k @ ser32 index))
      else Inr (node_publicKey node @ ser32 index))"

text \<open>
  Modelled from the spec: \<open>deriveChild\<close> (HDNode module, not under src/). The left 32
  bytes of the keyed hash are added to the parent's private key modulo the
  curve order, or offset the parent's public point; the right 32 bytes are the child's
  chain code. A left half not below the curve order and a child key of zero fail.
\<close>

definition deriveChild :: "hd_lib \<Rightarrow> HDNode \<Rightarrow> 32 word \<Rightarrow> error + HDNode" where
  "deriveChild lib node index =
     (case derivationData node index of
        Inl e \<Rightarrow> Inl e
      | Inr data \<Rightarrow>
          (let I = hmacSha512 lib (node_chainCode node) data;
               IL = be_nat (slice I 0 32);
               IR = slice I 32 64
           in if IL \<ge> curveOrder then Inl InvalidHDNode
              else case node_privateKey node of
                Some k \<Rightarrow>
                  (let child = (IL + be_nat k) mod curveOrder
                   in if child = 0 then Inl InvalidHDNode
                      else Inr \<lparr>node_privateKey = Some (be_bytes 32 child),
                                node_publicKey = toRawBytes (multiplyBase (curve lib) child) True,
                                node_chainCode = IR\<rparr>)
              | None \<Rightarrow>
                  (case pointFromBytes lib (node_publicKey node) of
                     None \<Rightarrow> Inl InvalidHDNode
                   | Some p \<Rightarrow>
                       Inr \<lparr>node_privateKey = None,
                            node_publicKey =
                              toRawBytes (pointAdd lib (multiplyBase (curve lib) IL) p) True,
                            node_chainCode = IR\<rparr>)))"

text \<open>
  Modelled from the spec: the derivation along a path (HDNode module, not under src/),
  one child after the other; it stops at the first failure.
\<close>

fun derive :: "hd_lib \<Rightarrow> HDNode \<Rightarrow> 32 word list \<Rightarrow> error + HDNode" where
  "derive lib node [] = Inr node"
| "derive lib node (index # indices) =
     (case deriveChild lib node index of
        Inl e \<Rightarrow> Inl e
      | Inr child \<Rightarrow> derive lib child indices)"

text \<open>
  A stand-in to run the model: the additive group of the integers modulo the curve
  order, generated by 1, in place of the curve. The point of the scalar k has the
  coordinates k and 0; the keyed hash answers the last byte of the data plus two as its
  left half and the key as its right half.
\<close>

definition additive_hd_lib :: hd_lib where
  "additive_hd_lib =
     \<lparr>curve =
        \<lparr>multiplyBase = (\<lambda>k. \<lparr>point_x = of_nat (k mod curveOrder), point_y = 0\<rparr>),
         ecdsaSign = ecdsaSign fixture_lib,
         recoverPublicKey = recoverPublicKey fixture_lib\<rparr>,
      hmacSha512 = (\<lambda>key data. replicate 31 0 @ [last data + 2] @ key),
      pointAdd = (\<lambda>p q.
        \<lparr>point_x = of_nat ((unat (point_x p) + unat (point_x q)) mod curveOrder),
         point_y = 0\<rparr>),
      pointFromBytes = (\<lambda>b.
        if length b = 33
        then Some \<lparr>point_x = of_nat (be_nat (slice b 1 33)), point_y = 0\<rparr>
        else None)\<rparr>"

text \<open>
  The two properties of the curve library that the derivation in public-key space rests
  on. Adding the multiples of the base point by a and by b gives the multiple by their
  sum modulo the curve order (for scalars below the order, b and the sum not zero); and
  decoding the compressed encoding of the multiple by a valid scalar gives that point.
\<close>

definition addsLikeScalars :: "hd_lib \<Rightarrow> bool" where
  "addsLikeScalars lib \<longleftrightarrow>
     (\<forall>a b. a < curveOrder \<and> 0 < b \<and> b < curveOrder \<and> (a + b) mod curveOrder \<noteq> 0 \<longrightarrow>
        pointAdd lib (multiplyBase (curve lib) a) (multiplyBase (curve lib) b)
          = multiplyBase (curve lib) ((a + b) mod curveOrder))"

definition decodesOwnKeys :: "hd_lib \<Rightarrow> bool" where
  "decodesOwnKeys lib \<longleftrightarrow>
     (\<forall>a. 0 < a \<and> a < curveOrder \<longrightarrow>
        pointFromBytes lib (toRawBytes (multiplyBase (curve lib) a) True)
          = Some (multiplyBase (curve lib) a))"

text \<open>
  Two relations for the proofs: a node whose private key is a valid scalar and whose
  public key is the multiple of the base point by it, and a public-only node with the
  public key and the chain code of another node.
\<close>

definition keyed :: "hd_lib \<Rightarrow> HDNode \<Rightarrow> bool" where
  "keyed lib node \<longleftrightarrow>
     (\<exists>k. node_privateKey node = Some k
        \<and> 0 < be_nat k \<and> be_nat k < curveOrder
        \<and> node_publicKey node = toRawBytes (multiplyBase (curve lib) (be_nat k)) True)"

definition shadows :: "HDNode \<Rightarrow> HDNode \<Rightarrow> bool" where
  "shadows pub node \<longleftrightarrow>
     node_privateKey pub = None
     \<and> node_publicKey pub = node_publicKey node
     \<and> node_chainCode pub = node_chainCode node"

section \<open>Properties of buffers\<close>

lemma be_nat_bound: "be_nat bs < 256 ^ length bs"
proof (induction bs)
  case Nil
  show ?case by simp
next
  case (Cons b bs)
  have "unat b < 256" using unsigned_less [of b, where ?'a = nat] by simp
  then have "unat b + 1 \<le> 256" by simp
  then have A: "(unat b + 1) * 256 ^ length bs \<le> 256 * 256 ^ length bs"
    by (rule mult_le_mono1)
  have B: "unat b * 256 ^ length bs + be_nat bs < (unat b + 1) * 256 ^ length bs"
    using Cons.IH by (simp add: algebra_simps)
  show ?case using less_le_trans [OF B A] by simp
qed

lemma Buffer_compare_lt_iff:
  "length a = length b \<Longrightarrow> (Buffer_compare a b < 0 \<longleftrightarrow> be_nat a < be_nat b)"
proof (induction a b rule: list_induct2)
  case Nil
  show ?case by simp
next
  case (Cons x xs y ys)
  let ?m = "256 ^ length ys :: nat"
  have bx: "be_nat xs < ?m" using be_nat_bound [of xs] Cons.hyps by simp
  have by': "be_nat ys < ?m" using be_nat_bound [of ys] by simp
  show ?case
  proof (cases "x < y")
    case True
    then have "unat x + 1 \<le> unat y" by (simp add: word_less_nat_alt)
    then have "(unat x + 1) * ?m \<le> unat y * ?m" by (rule mult_le_mono1)
    then have "unat x * ?m + be_nat xs < unat y * ?m + be_nat ys"
      using bx by (simp add: algebra_simps)
    with True Cons.hyps show ?thesis by simp
  next
    case False
    show ?thesis
    proof (cases "y < x")
      case True
      then have "unat y + 1 \<le> unat x" by (simp add: word_less_nat_alt)
      then have "(unat y + 1) * ?m \<le> unat x * ?m" by (rule mult_le_mono1)
      then have "\<not> unat x * ?m + be_nat xs < unat y * ?m + be_nat ys"
        using by' by (simp add: algebra_simps)
      with True False Cons.hyps show ?thesis by simp
    next
      case F2: False
      with False have "x = y" by simp
      with Cons show ?thesis by simp
    qed
  qed
qed

lemma be_nat_zero_iff: "be_nat bs = 0 \<longleftrightarrow> bs = replicate (length bs) 0"
  by (induction bs) (auto simp: unat_eq_0)

lemma be_nat_MAX: "be_nat PRIVATE_KEY_MAX_VALUE = curveOrder"
  by (simp add: PRIVATE_KEY_MAX_VALUE_def curveOrder_def)

lemma isValidPrivateKey_iff:
  "isValidPrivateKey k \<longleftrightarrow> length k = 32 \<and> 0 < be_nat k \<and> be_nat k < curveOrder"
proof (cases "length k = 32")
  case True
  have len: "length k = length PRIVATE_KEY_MAX_VALUE"
    using True by (simp add: PRIVATE_KEY_MAX_VALUE_def)
  have z: "k = ZERO_BUFFER 32 \<longleftrightarrow> be_nat k = 0"
    using be_nat_zero_iff [of k] True by (simp add: ZERO_BUFFER_def)
  show ?thesis
    using True z Buffer_compare_lt_iff [OF len]
    by (auto simp: isValidPrivateKey_def Buffer_equals_def be_nat_MAX)
next
  case False
  then show ?thesis by (simp add: isValidPrivateKey_def)
qed


lemma length_be_bytes: "length (be_bytes n v) = n"
  by (simp add: be_bytes_def)

lemma be_bytes_Suc: "be_bytes (Suc n) v = of_nat (v div 256 ^ n) # be_bytes n v"
proof -
  have "[0..<Suc n] = 0 # map Suc [0..<n]"
    by (simp add: upt_conv_Cons map_Suc_upt del: upt_Suc)
  then show ?thesis
    by (simp add: be_bytes_def comp_def del: upt_Suc)
qed

lemma unat_of_nat_byte: "unat (of_nat q :: byte) = q mod 256"
  by (simp add: unat_of_nat)

lemma be_nat_be_bytes_mod: "be_nat (be_bytes n v) = v mod 256 ^ n"
proof (induction n)
  case 0
  show ?case by (simp add: be_bytes_def)
next
  case (Suc n)
  have "v mod (256 ^ n * 256) = 256 ^ n * (v div 256 ^ n mod 256) + v mod 256 ^ n"
    by (rule mod_mult2_eq)
  then show ?case
    using Suc by (simp add: be_bytes_Suc unat_of_nat_byte length_be_bytes mult.commute)
qed

lemma be_nat_be_bytes: "v < 256 ^ n \<Longrightarrow> be_nat (be_bytes n v) = v"
  by (simp add: be_nat_be_bytes_mod)

lemma length_toArray_be_32: "length (toArray_be_32 w) = 32"
  by (simp add: toArray_be_32_def length_be_bytes)

lemma be_nat_toArray_be_32: "be_nat (toArray_be_32 w) = unat w"
proof -
  have "unat w < 2 ^ 256" using unsigned_less [of w, where ?'a = nat] by simp
  also have "(2::nat) ^ 256 = 256 ^ 32" by simp
  finally show ?thesis by (simp add: toArray_be_32_def be_nat_be_bytes)
qed

lemma last_be_bytes: "0 < n \<Longrightarrow> last (be_bytes n v) = of_nat v"
  by (simp add: be_bytes_def last_map)

lemma byte_and_1: "(of_nat v :: byte) AND 1 = (if even v then 0 else 1)"
  by (simp add: and_one_eq mod_2_eq_odd)

lemma ucast_and_1: "(ucast (w :: 256 word) :: byte) AND 1 = (if even (unat w) then 0 else 1)"
  using byte_and_1 [of "unat w"] by simp

lemma curveOrder_bounds: "1 < curveOrder" "curveOrder < 256 ^ 32"
  by (simp_all add: curveOrder_def)

lemma isValidPrivateKey_zero: "\<not> isValidPrivateKey (ZERO_BUFFER 32)"
  by (simp add: isValidPrivateKey_def Buffer_equals_def)

lemma isValidPrivateKey_one: "isValidPrivateKey (be_bytes 32 1)"
  using curveOrder_bounds by (simp add: isValidPrivateKey_iff length_be_bytes be_nat_be_bytes)

lemma isValidPrivateKey_order_minus_1: "isValidPrivateKey (be_bytes 32 (curveOrder - 1))"
  using curveOrder_bounds by (simp add: isValidPrivateKey_iff length_be_bytes be_nat_be_bytes)

lemma isValidPrivateKey_order: "\<not> isValidPrivateKey (be_bytes 32 curveOrder)"
  using curveOrder_bounds by (simp add: isValidPrivateKey_iff be_nat_be_bytes)

lemma isValidPrivateKey_length: "isValidPrivateKey k \<Longrightarrow> length k = 32"
  by (simp add: isValidPrivateKey_def)

section \<open>Private keys\<close>

text \<open>
  C2. \<open>isValidPrivateKey\<close> is true exactly of the buffers of 32 bytes whose big-endian
  value lies strictly between 0 and the curve order. It is false of the all-zero key,
  true of the encodings of 1 and of the order minus one, false of the encoding of the
  order, and false of every buffer of 31 or of 33 bytes.
\<close>

theorem isValidPrivateKey_boundary:
  "(isValidPrivateKey k \<longleftrightarrow> length k = 32 \<and> 0 < be_nat k \<and> be_nat k < curveOrder)
   \<and> \<not> isValidPrivateKey (ZERO_BUFFER 32)
   \<and> isValidPrivateKey (be_bytes 32 1)
   \<and> isValidPrivateKey (be_bytes 32 (curveOrder - 1))
   \<and> \<not> isValidPrivateKey (be_bytes 32 curveOrder)
   \<and> (length k' = 31 \<or> length k' = 33 \<longrightarrow> \<not> isValidPrivateKey k')"
proof -
  have len: "length k' = 31 \<or> length k' = 33 \<longrightarrow> \<not> isValidPrivateKey k'"
    using isValidPrivateKey_length [of k'] by auto
  from isValidPrivateKey_iff [of k] isValidPrivateKey_zero isValidPrivateKey_one
    isValidPrivateKey_order_minus_1 isValidPrivateKey_order len
  show ?thesis by blast
qed

text \<open>The boundary theorem at the key 2 and at buffers of 31 and 33 bytes.\<close>

theorem isValidPrivateKey_boundary_witness:
  "isValidPrivateKey (be_bytes 32 2) \<and> \<not> isValidPrivateKey (replicate 31 7)
   \<and> \<not> isValidPrivateKey (replicate 33 7)"
  using isValidPrivateKey_boundary [of "be_bytes 32 2" "replicate 31 7"]
    isValidPrivateKey_boundary [of "be_bytes 32 2" "replicate 33 7"]
  by (simp add: length_be_bytes be_nat_be_bytes curveOrder_def)

section \<open>Recovery of the public key\<close>

text \<open>
  C3, as stated, fails: a message hash of 32 bytes and a signature of 65 bytes whose
  last byte is 1 pass the three checks, and \<open>recover\<close> still returns no public key
  when the curve library rejects the signature. \<open>recover\<close> has no catch: on the
  signature whose r and s are zero the error of the library is what it raises.
\<close>

theorem recover_rejected_signature_counterexample:
  "length (replicate 32 0 :: buffer) = 32
   \<and> length (replicate 64 0 @ [1] :: buffer) = 65
   \<and> (replicate 64 0 @ [1] :: buffer) ! 64 = 1
   \<and> recover rejecting_lib (replicate 32 0) (replicate 64 0 @ [1]) = Inl LibraryError"
  by (simp add: recover_def assertIsValidSecp256k1MessageHash_def assert_def
      isValidMessageHash_def SIGNATURE_LENGTH_def at_def slice_def rejecting_lib_def
      ZERO_BUFFER_def nth_append)

text \<open>
  C3, amended. \<open>recover\<close> fails with InvalidSecp256k1MessageHash when the message hash
  is not of 32 bytes, whatever the signature; otherwise with InvalidSecp256k1Signature
  when the signature is not of 65 bytes; otherwise with
  InvalidSecp256k1SignatureRecovery when the byte at index 64 is neither 0 nor 1. None
  of the three answers depends on the curve library: the checks come first, in this
  order. When all three pass, the library is called on the first 64 bytes and the
  recovery byte: the point it recovers is returned as 65 bytes, the prefix 0x04 and the
  two coordinates, and the error it throws on a signature it rejects is passed on as it
  is. Every value \<open>recover\<close> returns has 65 bytes and the prefix 0x04.
\<close>

theorem recover_checks:
  "(length messageHash \<noteq> 32 \<longrightarrow>
      recover lib messageHash sig = Inl InvalidSecp256k1MessageHash)
   \<and> (length messageHash = 32 \<and> length sig \<noteq> 65 \<longrightarrow>
      recover lib messageHash sig = Inl InvalidSecp256k1Signature)
   \<and> (length messageHash = 32 \<and> length sig = 65 \<and> sig ! 64 \<noteq> 0 \<and> sig ! 64 \<noteq> 1 \<longrightarrow>
      recover lib messageHash sig = Inl InvalidSecp256k1SignatureRecovery)
   \<and> (length messageHash = 32 \<and> length sig = 65 \<and> (sig ! 64 = 0 \<or> sig ! 64 = 1) \<longrightarrow>
      (\<forall>p. recoverPublicKey lib (take 64 sig) (unat (sig ! 64)) messageHash = Inr p \<longrightarrow>
         recover lib messageHash sig
           = Inr (4 # toArray_be_32 (point_x p) @ toArray_be_32 (point_y p))
         \<and> length (4 # toArray_be_32 (point_x p) @ toArray_be_32 (point_y p)) = 65)
      \<and> (\<forall>e. recoverPublicKey lib (take 64 sig) (unat (sig ! 64)) messageHash = Inl e \<longrightarrow>
         recover lib messageHash sig = Inl e))
   \<and> (\<forall>publicKey. recover lib messageHash sig = Inr publicKey \<longrightarrow>
         length publicKey = 65 \<and> at publicKey 0 = Some 4)"
  by (auto simp: recover_def assertIsValidSecp256k1MessageHash_def assert_def
      isValidMessageHash_def SIGNATURE_LENGTH_def at_def slice_def toRawBytes_def
      length_toArray_be_32 Let_def split: sum.splits)

text \<open>What the stand-in that rejects answers on the two signatures of the examples.\<close>

lemma rejecting_lib_accepts:
  "recoverPublicKey rejecting_lib (replicate 64 7) n h = Inr fixture_point"
  by (simp add: rejecting_lib_def slice_def ZERO_BUFFER_def)

lemma rejecting_lib_rejects:
  "recoverPublicKey rejecting_lib (replicate 64 0) n h = Inl LibraryError"
  by (simp add: rejecting_lib_def slice_def ZERO_BUFFER_def)

text \<open>
  The five cases of \<open>recover\<close> on concrete inputs, with the stand-in that rejects: the
  three checks, a signature the library accepts and one it rejects.
\<close>

theorem recover_checks_witness:
  "recover rejecting_lib (replicate 31 0) (replicate 64 7 @ [0])
        = Inl InvalidSecp256k1MessageHash
   \<and> recover rejecting_lib (replicate 32 0) (replicate 64 7) = Inl InvalidSecp256k1Signature
   \<and> recover rejecting_lib (replicate 32 0) (replicate 64 7 @ [2])
        = Inl InvalidSecp256k1SignatureRecovery
   \<and> recover rejecting_lib (replicate 32 0) (replicate 64 7 @ [1])
        = Inr (4 # toArray_be_32 (point_x fixture_point) @ toArray_be_32 (point_y fixture_point))
   \<and> length (4 # toArray_be_32 (point_x fixture_point) @ toArray_be_32 (point_y fixture_point))
        = 65
   \<and> recover rejecting_lib (replicate 32 0) (replicate 64 0 @ [0]) = Inl LibraryError"
  using recover_checks [of "replicate 31 0" rejecting_lib "replicate 64 7 @ [0]"]
    recover_checks [of "replicate 32 0" rejecting_lib "replicate 64 7"]
    recover_checks [of "replicate 32 0" rejecting_lib "replicate 64 7 @ [2]"]
    recover_checks [of "replicate 32 0" rejecting_lib "replicate 64 7 @ [1]"]
    recover_checks [of "replicate 32 0" rejecting_lib "replicate 64 0 @ [0]"]
  by (simp add: nth_append rejecting_lib_accepts rejecting_lib_rejects)

section \<open>Signing\<close>

text \<open>
  C4. \<open>sign\<close> fails with InvalidSecp256k1MessageHash when the message hash is not of
  32 bytes, whatever the key; otherwise with InvalidSecp256k1PrivateKey when the key is
  not valid. Neither answer depends on the curve library: both checks come before the
  signing. For a valid hash and key it returns 65 bytes: the 32-byte big-endian r, the
  32-byte big-endian s, and one byte holding the recovery id of the library's signature.
\<close>

theorem sign_checks_and_layout:
  "(length messageHash \<noteq> 32 \<longrightarrow>
      sign lib messageHash privateKey = Inl InvalidSecp256k1MessageHash)
   \<and> (length messageHash = 32 \<and> \<not> isValidPrivateKey privateKey \<longrightarrow>
      sign lib messageHash privateKey = Inl InvalidSecp256k1PrivateKey)
   \<and> (length messageHash = 32 \<and> isValidPrivateKey privateKey \<longrightarrow>
      (\<exists>out. sign lib messageHash privateKey = Inr out
         \<and> length out = 65
         \<and> length (slice out 0 32) = 32
         \<and> be_nat (slice out 0 32) = unat (sig_r (ecdsaSign lib messageHash privateKey))
         \<and> length (slice out 32 64) = 32
         \<and> be_nat (slice out 32 64) = unat (sig_s (ecdsaSign lib messageHash privateKey))
         \<and> slice out 64 65 = [of_nat (sig_recovery (ecdsaSign lib messageHash privateKey))]))"
  by (simp add: sign_def assertIsValidSecp256k1MessageHash_def assertIsValidPrivateKey_def
      assert_def isValidMessageHash_def slice_def Let_def
      length_toArray_be_32 be_nat_toArray_be_32)

text \<open>The three cases of \<open>sign\<close> on concrete inputs, with the stand-in library.\<close>

theorem sign_checks_and_layout_witness:
  "sign fixture_lib (replicate 31 0) (be_bytes 32 1) = Inl InvalidSecp256k1MessageHash
   \<and> sign fixture_lib (replicate 32 0) (ZERO_BUFFER 32) = Inl InvalidSecp256k1PrivateKey
   \<and> (\<exists>out. sign fixture_lib (replicate 32 0) (be_bytes 32 1) = Inr out
         \<and> length out = 65
         \<and> be_nat (slice out 0 32) = 1 \<and> be_nat (slice out 32 64) = 2
         \<and> slice out 64 65 = [0])"
  using sign_checks_and_layout [of "replicate 31 0" fixture_lib "be_bytes 32 1"]
    sign_checks_and_layout [of "replicate 32 0" fixture_lib "ZERO_BUFFER 32"]
    sign_checks_and_layout [of "replicate 32 0" fixture_lib "be_bytes 32 1"]
    isValidPrivateKey_one isValidPrivateKey_zero
  by (auto simp: fixture_lib_def)

section \<open>Signing, then recovering\<close>

text \<open>
  What \<open>recover\<close> answers on the output of \<open>sign\<close>, for a valid hash and key: the
  signature has the right length, its first 64 bytes are the library's r and s, and
  the answer is the one of the curve library's recovery when the recovery id that the
  library signed with is 0 or 1, and InvalidSecp256k1SignatureRecovery otherwise. That
  the library recovers the public key of the signer is a property of the library.
\<close>

lemma recover_of_sign:
  assumes h: "isValidMessageHash messageHash" and k: "isValidPrivateKey privateKey"
    and out: "sign lib messageHash privateKey = Inr out"
  shows "recover lib messageHash out =
     (let sig = ecdsaSign lib messageHash privateKey;
          recovery = (of_nat (sig_recovery sig) :: byte) in
      if recovery = 0 \<or> recovery = 1 then
        (case recoverPublicKey lib (toArray_be_32 (sig_r sig) @ toArray_be_32 (sig_s sig))
                (unat recovery) messageHash of
           Inl e \<Rightarrow> Inl e
         | Inr p \<Rightarrow> Inr (toRawBytes p False))
      else Inl InvalidSecp256k1SignatureRecovery)"
proof -
  let ?sig = "ecdsaSign lib messageHash privateKey"
  let ?r = "toArray_be_32 (sig_r ?sig)" and ?s = "toArray_be_32 (sig_s ?sig)"
  from h k out have o: "out = ?r @ ?s @ [of_nat (sig_recovery ?sig)]"
    by (simp add: sign_def assertIsValidSecp256k1MessageHash_def assertIsValidPrivateKey_def
        assert_def Let_def)
  have len: "length ?r = 32" "length ?s = 32" by (simp_all add: length_toArray_be_32)
  have a: "at out 64 = Some (of_nat (sig_recovery ?sig))"
    using len by (simp add: o at_def nth_append)
  have sl: "slice out 0 64 = ?r @ ?s" using len by (simp add: o slice_def)
  have l: "length out = 65" using len by (simp add: o)
  show ?thesis
    using h a sl l
    by (simp add: recover_def assertIsValidSecp256k1MessageHash_def assert_def
        SIGNATURE_LENGTH_def Let_def)
qed

section \<open>Derivation of the public key\<close>

text \<open>
  C6. \<open>derivePublicKey\<close> fails with InvalidSecp256k1PrivateKey on every key that is
  not valid. On a valid key it returns the encoding of the multiple of the base point by
  the key's value, as the curve library computes it: 33 bytes, the prefix 0x02 or 0x03
  and x, when compressed; 65 bytes, the prefix 0x04, x and y, when not.
\<close>

theorem derivePublicKey_spec:
  "(\<not> isValidPrivateKey privateKey \<longrightarrow>
      derivePublicKey lib privateKey isCompressed = Inl InvalidSecp256k1PrivateKey)
   \<and> (isValidPrivateKey privateKey \<longrightarrow>
      (\<exists>publicKey.
         derivePublicKey lib privateKey isCompressed = Inr publicKey
         \<and> (isCompressed \<longrightarrow>
              length publicKey = 33
              \<and> (at publicKey 0 = Some 2 \<or> at publicKey 0 = Some 3)
              \<and> (at publicKey 0 = Some 2
                    \<longleftrightarrow> even (unat (point_y (multiplyBase lib (be_nat privateKey)))))
              \<and> be_nat (slice publicKey 1 33)
                  = unat (point_x (multiplyBase lib (be_nat privateKey))))
         \<and> (\<not> isCompressed \<longrightarrow>
              length publicKey = 65
              \<and> at publicKey 0 = Some 4
              \<and> be_nat (slice publicKey 1 33)
                  = unat (point_x (multiplyBase lib (be_nat privateKey)))
              \<and> be_nat (slice publicKey 33 65)
                  = unat (point_y (multiplyBase lib (be_nat privateKey))))))"
  by (simp add: derivePublicKey_def assertIsValidPrivateKey_def assert_def toRawBytes_def
      at_def slice_def length_toArray_be_32 be_nat_toArray_be_32)

text \<open>The zero key is refused; the key 1 yields the two encodings of the base point.\<close>

theorem derivePublicKey_spec_witness:
  "derivePublicKey fixture_lib (ZERO_BUFFER 32) True = Inl InvalidSecp256k1PrivateKey
   \<and> (\<exists>publicKey. derivePublicKey fixture_lib (be_bytes 32 1) True = Inr publicKey
         \<and> length publicKey = 33
         \<and> (at publicKey 0 = Some 2 \<or> at publicKey 0 = Some 3)
         \<and> be_nat (slice publicKey 1 33)
              = 0x79be667ef9dcbbac55a06295ce870b07029bfcdb2dce28d959f2815b16f81798)
   \<and> (\<exists>publicKey. derivePublicKey fixture_lib (be_bytes 32 1) False = Inr publicKey
         \<and> length publicKey = 65
         \<and> at publicKey 0 = Some 4
         \<and> be_nat (slice publicKey 33 65)
              = 0x483ada7726a3c4655da4fbfc0e1108a8fd17b448a68554199c47d08ffb10d4b8)"
  using derivePublicKey_spec [of "ZERO_BUFFER 32" fixture_lib True]
    derivePublicKey_spec [of "be_bytes 32 1" fixture_lib True]
    derivePublicKey_spec [of "be_bytes 32 1" fixture_lib False]
    isValidPrivateKey_one isValidPrivateKey_zero
  by (auto simp: fixture_lib_def fixture_point_def)

section \<open>Compression of the public key\<close>

text \<open>
  C5, as stated, fails: the three bytes 07 01 02 are neither a 33-byte nor a 65-byte
  encoding, and \<open>compressPublicKey\<close> returns them unchanged instead of failing.
\<close>

theorem compressPublicKey_counterexample:
  "length [7, 1, 2 :: byte] \<noteq> 33 \<and> length [7, 1, 2 :: byte] \<noteq> 65
   \<and> compressPublicKey [7, 1, 2] = Inr [7, 1, 2]"
  by (simp add: compressPublicKey_def at_def)

text \<open>
  C5, amended. \<open>compressPublicKey\<close> validates nothing and never fails. An input whose
  first byte is not 0x04, the empty and the malformed ones included, is returned
  unchanged. An input whose first byte is 0x04 yields the byte 0x02 plus the lowest bit
  of the last byte of the range from 33 to 65 (0 when that range is empty), followed by
  the bytes of the range from 1 to 33. On the 65-byte uncompressed encoding of a point
  this is the 33-byte compressed encoding of the same point.
\<close>

theorem compressPublicKey_never_fails:
  "(\<exists>out. compressPublicKey publicKey = Inr out)
   \<and> (at publicKey 0 \<noteq> Some 4 \<longrightarrow> compressPublicKey publicKey = Inr publicKey)
   \<and> (at publicKey 0 = Some 4 \<longrightarrow>
        compressPublicKey publicKey
          = Inr ((2 + (case slice publicKey 33 65 of [] \<Rightarrow> 0 | y # ys \<Rightarrow> last (y # ys) AND 1))
                 # slice publicKey 1 33))
   \<and> compressPublicKey (toRawBytes p False) = Inr (toRawBytes p True)"
proof -
  have a: "\<exists>out. compressPublicKey publicKey = Inr out"
    by (simp add: compressPublicKey_def Let_def)
  have b: "at publicKey 0 \<noteq> Some 4 \<longrightarrow> compressPublicKey publicKey = Inr publicKey"
    by (simp add: compressPublicKey_def Let_def)
  have c: "at publicKey 0 = Some 4 \<longrightarrow>
        compressPublicKey publicKey
          = Inr ((2 + (case slice publicKey 33 65 of [] \<Rightarrow> 0 | y # ys \<Rightarrow> last (y # ys) AND 1))
                 # slice publicKey 1 33)"
    by (auto simp: compressPublicKey_def Let_def at_def last_conv_nth split: list.splits)
  have d: "compressPublicKey (toRawBytes p False) = Inr (toRawBytes p True)"
  proof -
    let ?x = "toArray_be_32 (point_x p)" and ?y = "toArray_be_32 (point_y p)"
    have ly: "length ?y = 32" and lx: "length ?x = 32" by (simp_all add: length_toArray_be_32)
    have sx: "slice (4 # ?x @ ?y) 1 33 = ?x" using lx by (simp add: slice_def)
    have sy: "slice (4 # ?x @ ?y) 33 65 = ?y" using lx ly by (simp add: slice_def)
    have lasty: "?y ! 31 = ucast (point_y p)"
      by (simp add: toArray_be_32_def be_bytes_def)
    have "at ?y (length ?y - 1) = Some (ucast (point_y p))"
      using ly lasty by (simp add: at_def)
    then show ?thesis
      using sx sy by (simp add: compressPublicKey_def toRawBytes_def at_def ucast_and_1 Let_def)
  qed
  from a b c d show ?thesis by blast
qed

text \<open>The amended statement on the empty input, on a short input and on the base point.\<close>

theorem compressPublicKey_never_fails_witness:
  "compressPublicKey [] = Inr []
   \<and> compressPublicKey [4, 9] = Inr [2, 9]
   \<and> compressPublicKey (toRawBytes fixture_point False) = Inr (toRawBytes fixture_point True)"
  using compressPublicKey_never_fails [of "[]" fixture_point]
    compressPublicKey_never_fails [of "[4, 9]" fixture_point]
  by (simp add: at_def slice_def)

section \<open>Addresses\<close>

text \<open>\<open>Address.of\<close> succeeds exactly when \<open>HexUInt.of\<close> and the constructor of \<open>HexUInt\<close> do.\<close>

lemma Address_of_succeeds_iff:
  "Address_of hx exp = Inr a \<longleftrightarrow>
     (\<exists>hi. HexUInt_of hx exp = Inr hi \<and> HexUInt_constructor hx hi = Inr a)"
  by (auto simp: Address_of_def ErrorInterceptor_def Address_constructor_def split: sum.splits)

text \<open>
  C9 fails on the code. \<open>Address.of\<close> is \<open>new Address(HexUInt.of(exp))\<close> and the
  constructor of \<open>Address\<close> only calls the one of \<open>HexUInt\<close>: no length is checked. The
  expression \<open>0xcaffee\<close>, of three bytes, for which the unit test of \<open>Address\<close> expects
  an InvalidDataType, yields an address of six digits; the negative \<open>-0xcaffee\<close> is
  refused, by the sign check of \<open>HexUInt\<close>.
\<close>

theorem Address_of_accepts_three_bytes:
  "Address_of fixture_hex ''0xcaffee'' = Inr \<lparr>hex_sign = 1, hex_digits = ''caffee''\<rparr>
   \<and> length ''caffee'' = 6
   \<and> HexUInt_of fixture_hex ''0xcaffee'' = Inr \<lparr>hex_sign = 1, hex_digits = ''caffee''\<rparr>
   \<and> Address_of fixture_hex ''-0xcaffee''
        = Inl (InvalidDataType ''HexUInt.constructor'' ''not positive'')"
  by (simp add: Address_of_def HexUInt_of_def ErrorInterceptor_def Address_constructor_def
      HexUInt_constructor_def fixture_hex_def errorHandler_def)

section \<open>Public and private derivation\<close>

lemma deriveChild_shadow:
  assumes hom: "addsLikeScalars lib" and dec: "decodesOwnKeys lib"
    and k: "keyed lib node" and sh: "shadows pub node"
    and nh: "\<not> isHardened index"
    and d: "deriveChild lib node index = Inr child"
  shows "\<exists>pchild. deriveChild lib pub index = Inr pchild
            \<and> keyed lib child \<and> shadows pchild child"
proof -
  from k obtain kb where kb: "node_privateKey node = Some kb"
    and k0: "0 < be_nat kb" and kn: "be_nat kb < curveOrder"
    and pk: "node_publicKey node = toRawBytes (multiplyBase (curve lib) (be_nat kb)) True"
    by (auto simp: keyed_def)
  let ?I = "hmacSha512 lib (node_chainCode node) (node_publicKey node @ ser32 index)"
  let ?IL = "be_nat (slice ?I 0 32)"
  let ?c = "(?IL + be_nat kb) mod curveOrder"
  from d nh kb have il: "?IL < curveOrder" and c0: "?c \<noteq> 0"
    and child: "child = \<lparr>node_privateKey = Some (be_bytes 32 ?c),
                node_publicKey = toRawBytes (multiplyBase (curve lib) ?c) True,
                node_chainCode = slice ?I 32 64\<rparr>"
    by (auto simp: deriveChild_def derivationData_def Let_def split: if_splits)
  have cn: "?c < curveOrder" using curveOrder_bounds by simp
  then have "?c < 256 ^ 32" using curveOrder_bounds(2) by (rule less_trans)
  then have bc: "be_nat (be_bytes 32 ?c) = ?c" by (rule be_nat_be_bytes)
  have kc: "keyed lib child" using child bc c0 cn by (simp add: keyed_def)
  from sh have p1: "node_privateKey pub = None"
    and p2: "node_publicKey pub = node_publicKey node"
    and p3: "node_chainCode pub = node_chainCode node" by (simp_all add: shadows_def)
  have decode: "pointFromBytes lib (node_publicKey node)
                  = Some (multiplyBase (curve lib) (be_nat kb))"
    using dec k0 kn pk by (simp add: decodesOwnKeys_def)
  have add: "pointAdd lib (multiplyBase (curve lib) ?IL) (multiplyBase (curve lib) (be_nat kb))
               = multiplyBase (curve lib) ?c"
    using hom il k0 kn c0 by (simp add: addsLikeScalars_def)
  have "deriveChild lib pub index
      = Inr \<lparr>node_privateKey = None,
             node_publicKey = toRawBytes (multiplyBase (curve lib) ?c) True,
             node_chainCode = slice ?I 32 64\<rparr>"
    using nh il p1 p2 p3 decode add
    by (simp add: deriveChild_def derivationData_def Let_def)
  then show ?thesis using kc child by (simp add: shadows_def)
qed

lemma derive_shadow:
  assumes hom: "addsLikeScalars lib" and dec: "decodesOwnKeys lib"
  shows "keyed lib node \<Longrightarrow> shadows pub node \<Longrightarrow> \<forall>i \<in> set path. \<not> isHardened i \<Longrightarrow>
         derive lib node path = Inr final \<Longrightarrow>
         \<exists>pfinal. derive lib pub path = Inr pfinal \<and> shadows pfinal final"
proof (induction path arbitrary: node pub)
  case Nil
  then show ?case by simp
next
  case (Cons i path)
  from Cons.prems(4) obtain child where c: "deriveChild lib node i = Inr child"
    and rest: "derive lib child path = Inr final"
    by (auto split: sum.splits)
  from Cons.prems(3) have nh: "\<not> isHardened i" and nhs: "\<forall>i \<in> set path. \<not> isHardened i"
    by simp_all
  from deriveChild_shadow [OF hom dec Cons.prems(1) Cons.prems(2) nh c]
  obtain pchild where pc: "deriveChild lib pub i = Inr pchild"
    and kc: "keyed lib child" and sc: "shadows pchild child" by blast
  from Cons.IH [OF kc sc nhs rest] pc show ?case by simp
qed

text \<open>
  C8. Let the curve library add points as it multiplies the base point, and decode the
  compressed encoding of a public key to its point (\<open>addsLikeScalars\<close> and
  \<open>decodesOwnKeys\<close>). Then for every sequence of indices that are not hardened: when
  a private-capable root and the node derived from it along the sequence exist, the
  public-only root built by \<open>fromPublicKey\<close> from the root's public key and chain code
  exists, the derivation from it along the same sequence succeeds, and the node it
  reaches has the same public key and chain code and no private key.
\<close>

theorem public_private_consistency:
  assumes hom: "addsLikeScalars lib" and dec: "decodesOwnKeys lib"
    and nh: "\<forall>i \<in> set path. \<not> isHardened i"
    and root: "fromPrivateKey lib key code = Inr root"
    and node: "derive lib root path = Inr node"
  shows "\<exists>proot pnode.
           fromPublicKey lib (node_publicKey root) (node_chainCode root) = Inr proot
           \<and> derive lib proot path = Inr pnode
           \<and> node_publicKey pnode = node_publicKey node
           \<and> node_chainCode pnode = node_chainCode node
           \<and> node_privateKey pnode = None
           \<and> node_privateKey proot = None"
proof -
  from root have r: "root = \<lparr>node_privateKey = Some key,
                node_publicKey = toRawBytes (multiplyBase (curve lib) (be_nat key)) True,
                node_chainCode = code\<rparr>" and len: "length code = 32"
    and valid: "isValidPrivateKey key"
    by (auto simp: fromPrivateKey_def split: if_splits)
  from valid have k0: "0 < be_nat key" and kn: "be_nat key < curveOrder"
    by (simp_all add: isValidPrivateKey_iff)
  let ?proot = "\<lparr>node_privateKey = None,
                node_publicKey = toRawBytes (multiplyBase (curve lib) (be_nat key)) True,
                node_chainCode = code\<rparr>"
  have p: "fromPublicKey lib (node_publicKey root) (node_chainCode root) = Inr ?proot"
    using r len dec k0 kn by (simp add: fromPublicKey_def decodesOwnKeys_def)
  have k: "keyed lib root" using r k0 kn by (simp add: keyed_def)
  have s: "shadows ?proot root" using r by (simp add: shadows_def)
  from derive_shadow [OF hom dec k s nh node]
  obtain pnode where "derive lib ?proot path = Inr pnode" and "shadows pnode node" by blast
  with p show ?thesis by (auto simp: shadows_def)
qed

text \<open>The additive stand-in has the two properties.\<close>

lemma additive_hom:
  "pointAdd additive_hd_lib (multiplyBase (curve additive_hd_lib) a)
       (multiplyBase (curve additive_hd_lib) b)
     = multiplyBase (curve additive_hd_lib) ((a + b) mod curveOrder)"
proof -
  have lt: "\<And>m. m mod curveOrder < 2 ^ 256"
  proof -
    fix m :: nat
    have "m mod curveOrder < curveOrder" using curveOrder_bounds by simp
    also have "curveOrder < 2 ^ 256" by (simp add: curveOrder_def)
    finally show "m mod curveOrder < 2 ^ 256" .
  qed
  have u: "\<And>m. unat (of_nat (m mod curveOrder) :: 256 word) = m mod curveOrder"
    using lt by (simp add: unat_of_nat)
  show ?thesis by (simp add: additive_hd_lib_def u mod_add_eq)
qed

lemma additive_addsLikeScalars: "addsLikeScalars additive_hd_lib"
  unfolding addsLikeScalars_def using additive_hom by blast

lemma additive_dec:
  "pointFromBytes additive_hd_lib (toRawBytes (multiplyBase (curve additive_hd_lib) a) True)
     = Some (multiplyBase (curve additive_hd_lib) a)"
  by (simp add: additive_hd_lib_def toRawBytes_def length_toArray_be_32 slice_def
      be_nat_toArray_be_32)

lemma additive_decodesOwnKeys: "decodesOwnKeys additive_hd_lib"
  unfolding decodesOwnKeys_def using additive_dec by blast

lemma be_nat_append: "be_nat (xs @ ys) = be_nat xs * 256 ^ length ys + be_nat ys"
  by (induction xs) (simp_all add: algebra_simps power_add)

lemma be_nat_replicate_zero: "be_nat (replicate n 0) = 0"
  by (induction n) simp_all

lemma additive_IL:
  "be_nat (slice (hmacSha512 additive_hd_lib key data) 0 32) = unat (last data + 2)"
  by (simp add: additive_hd_lib_def slice_def be_nat_append be_nat_replicate_zero)

lemma additive_IR:
  "length key = 32 \<Longrightarrow> slice (hmacSha512 additive_hd_lib key data) 32 64 = key"
  by (simp add: additive_hd_lib_def slice_def)

lemma last_ser32: "last (pk @ ser32 i) = ucast i"
  by (simp add: ser32_def be_bytes_def last_map)

lemma additive_multiplyBase:
  "multiplyBase (curve additive_hd_lib) k
     = \<lparr>point_x = of_nat (k mod curveOrder), point_y = 0\<rparr>"
  by (simp add: additive_hd_lib_def)

lemma additive_root:
  "fromPrivateKey additive_hd_lib (be_bytes 32 3) (replicate 32 9)
     = Inr \<lparr>node_privateKey = Some (be_bytes 32 3),
            node_publicKey = toRawBytes \<lparr>point_x = 3, point_y = 0\<rparr> True,
            node_chainCode = replicate 32 9\<rparr>"
  using curveOrder_bounds
  by (simp add: fromPrivateKey_def isValidPrivateKey_iff length_be_bytes be_nat_be_bytes
      additive_multiplyBase curveOrder_def)

lemma additive_child_0:
  "deriveChild additive_hd_lib
       \<lparr>node_privateKey = Some (be_bytes 32 3),
        node_publicKey = toRawBytes \<lparr>point_x = 3, point_y = 0\<rparr> True,
        node_chainCode = replicate 32 9\<rparr> 0
     = Inr \<lparr>node_privateKey = Some (be_bytes 32 5),
            node_publicKey = toRawBytes \<lparr>point_x = 5, point_y = 0\<rparr> True,
            node_chainCode = replicate 32 9\<rparr>"
  by (simp add: deriveChild_def derivationData_def isHardened_def Let_def additive_IL
      additive_IR last_ser32 be_nat_be_bytes additive_multiplyBase curveOrder_def)

lemma additive_child_1:
  "deriveChild additive_hd_lib
       \<lparr>node_privateKey = Some (be_bytes 32 5),
        node_publicKey = toRawBytes \<lparr>point_x = 5, point_y = 0\<rparr> True,
        node_chainCode = replicate 32 9\<rparr> 1
     = Inr \<lparr>node_privateKey = Some (be_bytes 32 8),
            node_publicKey = toRawBytes \<lparr>point_x = 8, point_y = 0\<rparr> True,
            node_chainCode = replicate 32 9\<rparr>"
  by (simp add: deriveChild_def derivationData_def isHardened_def Let_def additive_IL
      additive_IR last_ser32 be_nat_be_bytes additive_multiplyBase curveOrder_def)

lemma additive_derive:
  "derive additive_hd_lib
       \<lparr>node_privateKey = Some (be_bytes 32 3),
        node_publicKey = toRawBytes \<lparr>point_x = 3, point_y = 0\<rparr> True,
        node_chainCode = replicate 32 9\<rparr> [0, 1]
     = Inr \<lparr>node_privateKey = Some (be_bytes 32 8),
            node_publicKey = toRawBytes \<lparr>point_x = 8, point_y = 0\<rparr> True,
            node_chainCode = replicate 32 9\<rparr>"
  by (simp add: additive_child_0 additive_child_1)

text \<open>
  The theorem on the additive stand-in, from the private key 3 along the indices 0 and
  1: the private keys are 3, 5 and 8, and the public-only derivation reaches the public
  key of 8.
\<close>

theorem public_private_consistency_witness:
  "\<exists>root node proot pnode.
     fromPrivateKey additive_hd_lib (be_bytes 32 3) (replicate 32 9) = Inr root
     \<and> derive additive_hd_lib root [0, 1] = Inr node
     \<and> node_privateKey node = Some (be_bytes 32 8)
     \<and> fromPublicKey additive_hd_lib (node_publicKey root) (node_chainCode root) = Inr proot
     \<and> derive additive_hd_lib proot [0, 1] = Inr pnode
     \<and> node_publicKey pnode = node_publicKey node
     \<and> node_privateKey pnode = None"
proof -
  have nh: "\<forall>i \<in> set [0, 1 :: 32 word]. \<not> isHardened i"
    by (simp add: isHardened_def)
  from public_private_consistency
    [of additive_hd_lib "[0, 1]" "be_bytes 32 3" "replicate 32 9",
      OF additive_addsLikeScalars additive_decodesOwnKeys nh additive_root additive_derive]
  show ?thesis using additive_root additive_derive by auto
qed

end
